theory Spec2Isabelle
  imports Main "HOL-Library.Word"
begin

section \<open>The tiered file store of main.go\<close>

text \<open>
  The store of \<^verbatim>\<open>main.go\<close> keeps uploaded files for a fixed time, in RAM while the
  RAM budget lasts and on disk afterwards. The Go code mutates one \<^verbatim>\<open>FileStore\<close>
  under a mutex; here every operation takes the store and the disk and returns them
  updated. What the operating system and the other packages decide (the random
  identifier, the clock, the outcome of a disk write or removal) is an argument of the
  operation, and so are the format conversion and \<^verbatim>\<open>filepath.Join\<close>, whose models
  \<open>performConversion\<close> and \<open>filepath_Join\<close> follow the operations of the store.
\<close>

subsection \<open>Constants\<close>

type_synonym bytes = "8 word list"

text \<open>Times and durations are counted in nanoseconds, as \<^verbatim>\<open>time.Duration\<close> is.\<close>

type_synonym time = int

definition Minute :: int where
  "Minute = 60 * 1000000000"

definition fileExpiryDuration :: int where
  "fileExpiryDuration = 10 * Minute"

definition ramLimitBytes :: int where
  "ramLimitBytes = 16 * 1024 * 1024 * 1024"

definition cleanupInterval :: int where
  "cleanupInterval = 1 * Minute"

definition defaultDiskPath :: string where
  "defaultDiskPath = ''temp_files''"

text \<open>
  \<^verbatim>\<open>currentRAMUsage\<close> and \<^verbatim>\<open>fileSize\<close> are \<^verbatim>\<open>int64\<close>: sums and differences
  wrap around in two's complement. \<open>int64\<close> maps the exact result to the one the
  machine keeps.
\<close>

definition int64 :: "int \<Rightarrow> int" where
  "int64 x = (x + 2 ^ 63) mod 2 ^ 64 - 2 ^ 63"

subsection \<open>Data\<close>

record FileMetadata =
  ID :: string
  OriginalName :: string
  ConvertedName :: string
  Size :: int
  UploadTime :: time
  ExpiryTime :: time
  IsInMemory :: bool
  Path :: string
  ContentType :: string

record FileStore =
  files :: "string \<rightharpoonup> FileMetadata"
  ramStore :: "string \<rightharpoonup> bytes"
  currentRAMUsage :: int
  diskPath :: string

text \<open>The files below the disk path: a map from path to content.\<close>

type_synonym disk = "string \<rightharpoonup> bytes"

text \<open>The two fields of \<^verbatim>\<open>multipart.FileHeader\<close> that \<^verbatim>\<open>AddFile\<close> reads.\<close>

record FileHeader =
  Filename :: string
  HeaderContentType :: string

text \<open>
  What the environment answers during one call of \<^verbatim>\<open>AddFile\<close>: the result of
  \<^verbatim>\<open>generateID\<close> (\<open>None\<close> when \<^verbatim>\<open>rand.Read\<close> fails), the result of
  \<^verbatim>\<open>io.ReadAll\<close>, the two readings of \<^verbatim>\<open>time.Now()\<close> (one for
  \<^verbatim>\<open>UploadTime\<close>, a second one for \<^verbatim>\<open>ExpiryTime\<close>) and whether
  \<^verbatim>\<open>os.WriteFile\<close> succeeds.
\<close>

record put_env =
  generateID_result :: "string option"
  ReadAll_result :: "bytes option"
  now_UploadTime :: time
  now_ExpiryTime :: time
  WriteFile_ok :: bool

datatype error =
    IDGenerationFailed
  | ReadFailed
  | ConversionFailed
  | DiskWriteFailed
  | NotFoundOrExpired
  | MetadataInconsistency
  | DiskReadFailed

subsection \<open>NewFileStore\<close>

text \<open>
  \<open>mkdirAll\<close> tells whether \<^verbatim>\<open>os.MkdirAll\<close> succeeds on a path. \<open>None\<close> is
  \<^verbatim>\<open>log.Fatalf\<close>.
\<close>

definition NewFileStore :: "(string \<Rightarrow> bool) \<Rightarrow> string \<Rightarrow> FileStore option" where
  "NewFileStore mkdirAll dp =
     (let dp1 = (if dp = [] then defaultDiskPath else dp) in
      if mkdirAll dp1 then
        Some \<lparr>files = Map.empty, ramStore = Map.empty, currentRAMUsage = 0, diskPath = dp1\<rparr>
      else if mkdirAll defaultDiskPath then
        Some \<lparr>files = Map.empty, ramStore = Map.empty, currentRAMUsage = 0,
              diskPath = defaultDiskPath\<rparr>
      else None)"

subsection \<open>getContentTypeForExtension\<close>

definition contentTypeTable :: "(string \<times> string) list" where
  "contentTypeTable =
    [(''jpg'', ''image/jpeg''), (''jpeg'', ''image/jpeg''), (''png'', ''image/png''),
     (''gif'', ''image/gif''), (''webp'', ''image/webp''), (''bmp'', ''image/bmp''),
     (''tiff'', ''image/tiff''), (''svg'', ''image/svg+xml''),
     (''mp3'', ''audio/mpeg''), (''wav'', ''audio/wav''), (''ogg'', ''audio/ogg''),
     (''flac'', ''audio/flac''), (''aac'', ''audio/aac''), (''wma'', ''audio/x-ms-wma''),
     (''mp4'', ''video/mp4''), (''avi'', ''video/x-msvideo''), (''mov'', ''video/quicktime''),
     (''webm'', ''video/webm''), (''mkv'', ''video/x-matroska''), (''flv'', ''video/x-flv''),
     (''pdf'', ''application/pdf''),
     (''docx'', ''application/vnd.openxmlformats-officedocument.wordprocessingml.document''),
     (''doc'', ''application/msword''), (''txt'', ''text/plain''), (''html'', ''text/html''),
     (''md'', ''text/markdown''),
     (''pptx'', ''application/vnd.openxmlformats-officedocument.presentationml.presentation''),
     (''ppt'', ''application/vnd.ms-powerpoint''),
     (''xlsx'', ''application/vnd.openxmlformats-officedocument.spreadsheetml.sheet''),
     (''xls'', ''application/vnd.ms-excel''), (''csv'', ''text/csv''),
     (''zip'', ''application/zip''), (''tar'', ''application/x-tar''),
     (''rar'', ''application/x-rar-compressed'')]"

definition getContentTypeForExtension :: "string \<Rightarrow> string" where
  "getContentTypeForExtension ext =
     (case map_of contentTypeTable ext of
        Some t \<Rightarrow> t
      | None \<Rightarrow> ''application/octet-stream'')"

subsection \<open>deleteFileInternal\<close>

text \<open>
  \<open>rm p\<close> tells whether \<^verbatim>\<open>os.Remove\<close> succeeds on the path \<open>p\<close>; a failure is
  logged and the file stays. The metadata entry goes in both cases.
\<close>

definition deleteFileInternal ::
  "(string \<Rightarrow> bool) \<Rightarrow> string \<Rightarrow> FileStore \<times> disk \<Rightarrow> FileStore \<times> disk" where
  "deleteFileInternal rm fileID st =
     (case st of (fs, dsk) \<Rightarrow>
        (case files fs fileID of
           None \<Rightarrow> (fs, dsk)
         | Some meta \<Rightarrow>
             (let (fs1, dsk1) =
                (if IsInMemory meta then
                   (case ramStore fs fileID of
                      Some data \<Rightarrow>
                        (fs\<lparr>currentRAMUsage := int64 (currentRAMUsage fs - int (length data)),
                            ramStore := (ramStore fs)(fileID := None)\<rparr>, dsk)
                    | None \<Rightarrow> (fs, dsk))
                 else (fs, if rm (Path meta) then dsk(Path meta := None) else dsk))
              in (fs1\<lparr>files := (files fs1)(fileID := None)\<rparr>, dsk1))))"

subsection \<open>AddFile\<close>

text \<open>
  Lines 100 to 136 of \<^verbatim>\<open>AddFile\<close>: the identifier, the bytes read, the metadata
  record and the optional conversion. \<open>performConversion\<close> is the function of
  \<^verbatim>\<open>conversion.go\<close>, given here as an argument and modelled further down; \<open>None\<close>
  is its error. The temporary files that it writes in \<^verbatim>\<open>os.TempDir()\<close> are not part
  of the disk of the store. The result is the identifier, the record, \<^verbatim>\<open>fileSize\<close>
  and \<^verbatim>\<open>fileBytes\<close> as they stand at line 137.
\<close>

definition AddFile_prepare ::
  "(bytes \<Rightarrow> string \<Rightarrow> string \<Rightarrow> (bytes \<times> string) option) \<Rightarrow> put_env \<Rightarrow> FileHeader \<Rightarrow> string
     \<Rightarrow> error + (string \<times> FileMetadata \<times> int \<times> bytes)" where
  "AddFile_prepare performConversion env header targetFormat =
     (case generateID_result env of
        None \<Rightarrow> Inl IDGenerationFailed
      | Some fileID \<Rightarrow>
          (case ReadAll_result env of
             None \<Rightarrow> Inl ReadFailed
           | Some fileBytes \<Rightarrow>
               (let fileSize = int (length fileBytes);
                    meta = \<lparr>ID = fileID, OriginalName = Filename header,
                            ConvertedName = Filename header, Size = fileSize,
                            UploadTime = now_UploadTime env,
                            ExpiryTime = now_ExpiryTime env + fileExpiryDuration,
                            IsInMemory = False, Path = [],
                            ContentType = HeaderContentType header\<rparr>
                in if targetFormat \<noteq> [] then
                     (case performConversion fileBytes (Filename header) targetFormat of
                        None \<Rightarrow> Inl ConversionFailed
                      | Some (convertedBytes, convertedFileName) \<Rightarrow>
                          Inr (fileID,
                               meta\<lparr>ConvertedName := convertedFileName,
                                    ContentType := getContentTypeForExtension targetFormat\<rparr>,
                               int (length convertedBytes), convertedBytes))
                   else Inr (fileID, meta, fileSize, fileBytes))))"

text \<open>
  Lines 138 to 158: the choice between RAM and disk, the storing and the insertion of
  the record. \<open>join\<close> is \<^verbatim>\<open>filepath.Join\<close>. A failed \<^verbatim>\<open>os.WriteFile\<close> returns
  before anything of the store has changed.
\<close>

definition AddFile_store ::
  "(string \<Rightarrow> string \<Rightarrow> string) \<Rightarrow> put_env \<Rightarrow> string \<times> FileMetadata \<times> int \<times> bytes
     \<Rightarrow> FileStore \<times> disk \<Rightarrow> (error + FileMetadata) \<times> FileStore \<times> disk" where
  "AddFile_store join env prepared st =
     (case (prepared, st) of ((fileID, meta, fileSize, fileBytes), (fs, dsk)) \<Rightarrow>
        if int64 (currentRAMUsage fs + fileSize) \<le> ramLimitBytes then
          (let meta1 = meta\<lparr>IsInMemory := True\<rparr> in
             (Inr meta1,
              fs\<lparr>ramStore := (ramStore fs)(fileID \<mapsto> fileBytes),
                 currentRAMUsage := int64 (currentRAMUsage fs + fileSize),
                 files := (files fs)(fileID \<mapsto> meta1)\<rparr>,
              dsk))
        else
          (let diskFilePath = join (diskPath fs) (fileID @ ''_'' @ ConvertedName meta) in
             if \<not> WriteFile_ok env then (Inl DiskWriteFailed, fs, dsk)
             else
               (let meta1 = meta\<lparr>IsInMemory := False, Path := diskFilePath\<rparr> in
                  (Inr meta1,
                   fs\<lparr>files := (files fs)(fileID \<mapsto> meta1)\<rparr>,
                   dsk(diskFilePath \<mapsto> fileBytes)))))"

definition AddFile ::
  "(string \<Rightarrow> string \<Rightarrow> string) \<Rightarrow> (bytes \<Rightarrow> string \<Rightarrow> string \<Rightarrow> (bytes \<times> string) option)
     \<Rightarrow> put_env \<Rightarrow> FileHeader \<Rightarrow> string
     \<Rightarrow> FileStore \<times> disk \<Rightarrow> (error + FileMetadata) \<times> FileStore \<times> disk" where
  "AddFile join performConversion env header targetFormat st =
     (case AddFile_prepare performConversion env header targetFormat of
        Inl e \<Rightarrow> (Inl e, st)
      | Inr prepared \<Rightarrow> AddFile_store join env prepared st)"

subsection \<open>GetFile\<close>

text \<open>
  \<open>now\<close> is the reading of \<^verbatim>\<open>time.Now()\<close>; \<^verbatim>\<open>now.After(t)\<close> is \<open>t < now\<close>.
  \<^verbatim>\<open>os.ReadFile\<close> returns the content of a file that is on the disk and fails on a
  path that is not.
\<close>

definition GetFile ::
  "(string \<Rightarrow> bool) \<Rightarrow> time \<Rightarrow> string \<Rightarrow> FileStore \<times> disk
     \<Rightarrow> (error + FileMetadata \<times> bytes) \<times> FileStore \<times> disk" where
  "GetFile rm now fileID st =
     (case st of (fs, dsk) \<Rightarrow>
        (case files fs fileID of
           None \<Rightarrow> (Inl NotFoundOrExpired, st)
         | Some meta \<Rightarrow>
             if ExpiryTime meta < now then
               (Inl NotFoundOrExpired, deleteFileInternal rm fileID st)
             else if IsInMemory meta then
               (case ramStore fs fileID of
                  None \<Rightarrow> (Inl MetadataInconsistency, st)
                | Some content \<Rightarrow> (Inr (meta, content), st))
             else
               (case dsk (Path meta) of
                  None \<Rightarrow> (Inl DiskReadFailed, st)
                | Some content \<Rightarrow> (Inr (meta, content), st))))"

subsection \<open>cleanupRoutine\<close>

text \<open>
  One tick of the ticker loop. \<open>ids\<close> is the order in which \<^verbatim>\<open>range fs.files\<close>
  visits the keys; a key that is no longer in the map when its turn comes is skipped,
  as Go does for entries removed during the iteration.
\<close>

definition cleanupStep ::
  "(string \<Rightarrow> bool) \<Rightarrow> time \<Rightarrow> string \<Rightarrow> FileStore \<times> disk \<Rightarrow> FileStore \<times> disk" where
  "cleanupStep rm now fileID st =
     (case files (fst st) fileID of
        None \<Rightarrow> st
      | Some meta \<Rightarrow>
          if ExpiryTime meta < now then deleteFileInternal rm fileID st else st)"

definition cleanupTick ::
  "(string \<Rightarrow> bool) \<Rightarrow> time \<Rightarrow> string list \<Rightarrow> FileStore \<times> disk \<Rightarrow> FileStore \<times> disk" where
  "cleanupTick rm now ids st = fold (cleanupStep rm now) ids st"

subsection \<open>Runs of the store\<close>

text \<open>
  The states that the store reaches from \<^verbatim>\<open>NewFileStore\<close> by calls of
  \<^verbatim>\<open>AddFile\<close>, \<^verbatim>\<open>GetFile\<close>, the deletion routine and the sweep. Two things are
  asked of the environment at a call of \<^verbatim>\<open>AddFile\<close>: \<^verbatim>\<open>generateID\<close> does not
  return an identifier that is in use (\<open>fresh_id\<close>), and the payload is shorter than
  \<open>2 ^ 62\<close> bytes (\<open>payload_fits\<close>), as every slice that fits an address space is.
\<close>

definition fresh_id :: "put_env \<Rightarrow> FileStore \<times> disk \<Rightarrow> bool" where
  "fresh_id env st =
     (case generateID_result env of
        None \<Rightarrow> True
      | Some fileID \<Rightarrow> files (fst st) fileID = None)"

definition payload_fits ::
  "(bytes \<Rightarrow> string \<Rightarrow> string \<Rightarrow> (bytes \<times> string) option) \<Rightarrow> put_env \<Rightarrow> FileHeader \<Rightarrow> string
     \<Rightarrow> bool" where
  "payload_fits performConversion env header targetFormat =
     (case AddFile_prepare performConversion env header targetFormat of
        Inl e \<Rightarrow> True
      | Inr (fileID, meta, fileSize, fileBytes) \<Rightarrow> int (length fileBytes) < 2 ^ 62)"

inductive reachable ::
  "(string \<Rightarrow> string \<Rightarrow> string) \<Rightarrow> (bytes \<Rightarrow> string \<Rightarrow> string \<Rightarrow> (bytes \<times> string) option)
     \<Rightarrow> FileStore \<times> disk \<Rightarrow> bool"
  for join performConversion where
    start: "NewFileStore mkdirAll dp = Some fs \<Longrightarrow> reachable join performConversion (fs, dsk)"
  | put: "reachable join performConversion st \<Longrightarrow> fresh_id env st \<Longrightarrow>
          payload_fits performConversion env header targetFormat \<Longrightarrow>
          reachable join performConversion
            (snd (AddFile join performConversion env header targetFormat st))"
  | get: "reachable join performConversion st \<Longrightarrow>
          reachable join performConversion (snd (GetFile rm now fileID st))"
  | evict: "reachable join performConversion st \<Longrightarrow>
          reachable join performConversion (deleteFileInternal rm fileID st)"
  | sweep: "reachable join performConversion st \<Longrightarrow>
          reachable join performConversion (cleanupTick rm now ids st)"

text \<open>
  The two sums that the accounting of RAM compares with \<^verbatim>\<open>currentRAMUsage\<close>: the
  \<^verbatim>\<open>Size\<close> fields of the records held in RAM, and the lengths of the contents in
  \<^verbatim>\<open>ramStore\<close>.
\<close>

definition memoryRecords :: "FileStore \<Rightarrow> string set" where
  "memoryRecords fs = {fileID. \<exists>meta. files fs fileID = Some meta \<and> IsInMemory meta}"

definition memorySizeSum :: "FileStore \<Rightarrow> int" where
  "memorySizeSum fs = (\<Sum>fileID \<in> memoryRecords fs. Size (the (files fs fileID)))"

definition ramStoreBytes :: "FileStore \<Rightarrow> int" where
  "ramStoreBytes fs = (\<Sum>fileID \<in> dom (ramStore fs). int (length (the (ramStore fs fileID))))"

text \<open>
  What the deletion routine relies on: the contents in \<^verbatim>\<open>ramStore\<close> are those of the
  records held in RAM, the counter is the number of bytes in \<^verbatim>\<open>ramStore\<close>, and the
  counter is within the budget.
\<close>

definition store_inv :: "FileStore \<Rightarrow> bool" where
  "store_inv fs \<longleftrightarrow>
     finite (dom (ramStore fs))
     \<and> memoryRecords fs = dom (ramStore fs)
     \<and> currentRAMUsage fs = ramStoreBytes fs
     \<and> currentRAMUsage fs \<le> ramLimitBytes"

text \<open>
  A conversion that returns as many bytes as it is given, and the stores in which the
  \<^verbatim>\<open>Size\<close> of every record with a content in \<^verbatim>\<open>ramStore\<close> is the length of that
  content.
\<close>

definition length_preserving ::
  "(bytes \<Rightarrow> string \<Rightarrow> string \<Rightarrow> (bytes \<times> string) option) \<Rightarrow> bool" where
  "length_preserving performConversion \<longleftrightarrow>
     (\<forall>b name fmt b' name'. performConversion b name fmt = Some (b', name') \<longrightarrow> length b' = length b)"

definition sizes_agree :: "FileStore \<Rightarrow> bool" where
  "sizes_agree fs \<longleftrightarrow>
     (\<forall>fileID meta b. files fs fileID = Some meta \<and> ramStore fs fileID = Some b
        \<longrightarrow> Size meta = int (length b))"

subsection \<open>Strings and paths of the Go library\<close>

text \<open>
  The functions of \<^verbatim>\<open>strings\<close> and \<^verbatim>\<open>path/filepath\<close> (Unix) that the store and the
  conversion call, after their documentation. A Go string is a sequence of bytes, as a
  \<open>string\<close> is here, so that \<^verbatim>\<open>string(b)\<close> and \<^verbatim>\<open>[]byte(s)\<close> keep every byte.
  \<open>ToLower\<close> is \<^verbatim>\<open>strings.ToLower\<close> on ASCII; bytes above 127 are kept.
\<close>

definition string_of_bytes :: "bytes \<Rightarrow> string" where
  "string_of_bytes b = map (\<lambda>w. char_of (unat w)) b"

definition bytes_of_string :: "string \<Rightarrow> bytes" where
  "bytes_of_string s = map (\<lambda>c. of_nat (of_char c)) s"

definition HasPrefix :: "string \<Rightarrow> string \<Rightarrow> bool" where
  "HasPrefix s p = (take (length p) s = p)"

definition HasSuffix :: "string \<Rightarrow> string \<Rightarrow> bool" where
  "HasSuffix s x = (length x \<le> length s \<and> drop (length s - length x) s = x)"

definition TrimSuffix :: "string \<Rightarrow> string \<Rightarrow> string" where
  "TrimSuffix s x = (if HasSuffix s x then take (length s - length x) s else s)"

definition ToLower :: "string \<Rightarrow> string" where
  "ToLower s =
     map (\<lambda>c. case map_of (zip ''ABCDEFGHIJKLMNOPQRSTUVWXYZ'' ''abcdefghijklmnopqrstuvwxyz'') c of
                 Some l \<Rightarrow> l
               | None \<Rightarrow> c) s"

fun Split :: "string \<Rightarrow> char \<Rightarrow> string list" where
  "Split [] sep = [[]]"
| "Split (c # cs) sep =
     (if c = sep then [] # Split cs sep
      else (case Split cs sep of
              [] \<Rightarrow> [[c]]
            | l # ls \<Rightarrow> (c # l) # ls))"

fun Join_strings :: "string list \<Rightarrow> string \<Rightarrow> string" where
  "Join_strings [] sep = []"
| "Join_strings [x] sep = x"
| "Join_strings (x # y # ys) sep = x @ sep @ Join_strings (y # ys) sep"

definition filepath_Ext :: "string \<Rightarrow> string" where
  "filepath_Ext path =
     (let r = takeWhile (\<lambda>c. c \<noteq> CHR ''.'' \<and> c \<noteq> CHR ''/'') (rev path) in
      case drop (length r) (rev path) of
        [] \<Rightarrow> []
      | c # cs \<Rightarrow> if c = CHR ''.'' then CHR ''.'' # rev r else [])"

definition filepath_Base :: "string \<Rightarrow> string" where
  "filepath_Base path =
     (if path = [] then ''.''
      else
        (let stripped = dropWhile (\<lambda>c. c = CHR ''/'') (rev path);
             element = rev (takeWhile (\<lambda>c. c \<noteq> CHR ''/'') stripped)
         in if element = [] then ''/'' else element))"

text \<open>
  \<^verbatim>\<open>filepath.Clean\<close>: empty elements and \<^verbatim>\<open>.\<close> are dropped, \<^verbatim>\<open>..\<close> removes the
  element before it, is dropped at the root and is kept at the start of a path that is
  not rooted; the empty result is \<^verbatim>\<open>.\<close>. \<^verbatim>\<open>filepath.Join\<close> of a directory and a name
  cleans the two joined by a separator, ignoring an empty directory.
\<close>

definition Clean_step :: "bool \<Rightarrow> string list \<Rightarrow> string \<Rightarrow> string list" where
  "Clean_step rooted out element =
     (if element = [] \<or> element = ''.'' then out
      else if element = ''..'' then
        (if out \<noteq> [] \<and> last out \<noteq> ''..'' then butlast out
         else if rooted then out
         else out @ [''..''])
      else out @ [element])"

definition Clean_elements :: "string \<Rightarrow> string list" where
  "Clean_elements path =
     foldl (Clean_step (take 1 path = ''/'')) [] (Split path (CHR ''/''))"

definition filepath_Clean :: "string \<Rightarrow> string" where
  "filepath_Clean path =
     (if take 1 path = ''/'' then CHR ''/'' # Join_strings (Clean_elements path) ''/''
      else if Clean_elements path = [] then ''.''
      else Join_strings (Clean_elements path) ''/'')"

definition filepath_Join :: "string \<Rightarrow> string \<Rightarrow> string" where
  "filepath_Join dir name =
     (if dir \<noteq> [] then filepath_Clean (dir @ ''/'' @ name)
      else if name \<noteq> [] then filepath_Clean name
      else [])"



subsection \<open>conversion.go\<close>

text \<open>
  \<^verbatim>\<open>performConversion\<close> and the functions it calls. What is decided outside the
  repository is a field of \<open>externals\<close>: the answer of \<^verbatim>\<open>http.DetectContentType\<close>,
  \<^verbatim>\<open>os.TempDir()\<close>, whether the temporary files can be written and read, and the
  converters that run image libraries, FFmpeg, wkhtmltopdf and the archiver. \<open>None\<close>
  is an error return. The temporary files are not part of the \<open>disk\<close> of the store;
  \<open>convertMarkdown\<close> is given the content that \<open>convertDocument\<close> has written to the
  temporary input file.
\<close>

datatype FileType =
  FileTypeImage | FileTypeAudio | FileTypeVideo | FileTypeDoc | FileTypeArchive | FileTypeOther

definition ConversionMap :: "(FileType \<times> (string \<times> string list) list) list" where
  "ConversionMap =
    [(FileTypeImage,
       [(''jpg'', [''png'', ''gif'', ''webp'', ''bmp'', ''tiff'']),
        (''jpeg'', [''png'', ''gif'', ''webp'', ''bmp'', ''tiff'']),
        (''png'', [''jpg'', ''gif'', ''webp'', ''bmp'', ''tiff'']),
        (''gif'', [''jpg'', ''png'', ''webp'', ''bmp'', ''tiff'']),
        (''webp'', [''jpg'', ''png'', ''gif'', ''bmp'', ''tiff'']),
        (''bmp'', [''jpg'', ''png'', ''gif'', ''webp'', ''tiff'']),
        (''tiff'', [''jpg'', ''png'', ''gif'', ''webp'', ''bmp'']),
        (''svg'', [''png'', ''jpg''])]),
     (FileTypeAudio,
       [(''mp3'', [''wav'', ''ogg'', ''flac'', ''aac'', ''wma'']),
        (''wav'', [''mp3'', ''ogg'', ''flac'', ''aac'', ''wma'']),
        (''ogg'', [''mp3'', ''wav'', ''flac'', ''aac'', ''wma'']),
        (''flac'', [''mp3'', ''wav'', ''ogg'', ''aac'', ''wma'']),
        (''aac'', [''mp3'', ''wav'', ''ogg'', ''flac'', ''wma'']),
        (''wma'', [''mp3'', ''wav'', ''ogg'', ''flac'', ''aac''])]),
     (FileTypeVideo,
       [(''mp4'', [''avi'', ''mov'', ''webm'', ''mkv'', ''flv'', ''mp3'', ''wav'', ''ogg'', ''flac'', ''aac'']),
        (''avi'', [''mp4'', ''mov'', ''webm'', ''mkv'', ''flv'', ''mp3'', ''wav'', ''ogg'', ''flac'', ''aac'']),
        (''mov'', [''mp4'', ''avi'', ''webm'', ''mkv'', ''flv'', ''mp3'', ''wav'', ''ogg'', ''flac'', ''aac'']),
        (''webm'', [''mp4'', ''avi'', ''mov'', ''mkv'', ''flv'', ''mp3'', ''wav'', ''ogg'', ''flac'', ''aac'']),
        (''mkv'', [''mp4'', ''avi'', ''mov'', ''webm'', ''flv'', ''mp3'', ''wav'', ''ogg'', ''flac'', ''aac'']),
        (''flv'', [''mp4'', ''avi'', ''mov'', ''webm'', ''mkv'', ''mp3'', ''wav'', ''ogg'', ''flac'', ''aac''])]),
     (FileTypeDoc,
       [(''docx'', [''pdf'', ''txt'', ''html'', ''md'']),
        (''doc'', [''pdf'', ''txt'', ''html'', ''md'']),
        (''pdf'', [''txt'', ''html'', ''md'']),
        (''txt'', [''pdf'', ''html'', ''md'']),
        (''html'', [''pdf'', ''txt'', ''md'']),
        (''md'', [''html'', ''txt'', ''pdf'']),
        (''pptx'', [''pdf'']),
        (''ppt'', [''pdf'']),
        (''xlsx'', [''csv'', ''pdf'']),
        (''xls'', [''csv'', ''pdf''])]),
     (FileTypeArchive,
       [(''zip'', [''tar'']),
        (''tar'', [''zip'']),
        (''rar'', [''zip'', ''tar''])])]"

record externals =
  DetectContentType :: "bytes \<Rightarrow> string"
  TempDir :: string
  TempFiles_ok :: bool
  convertImage :: "bytes \<Rightarrow> string \<Rightarrow> string \<Rightarrow> (bytes \<times> string) option"
  convertMediaWithFFmpeg ::
    "bytes \<Rightarrow> string \<Rightarrow> string \<Rightarrow> string \<Rightarrow> string \<Rightarrow> (bytes \<times> string) option"
  wkhtmltopdf :: "bytes \<Rightarrow> bytes option"
  convertArchive :: "bytes \<Rightarrow> string \<Rightarrow> string \<Rightarrow> string \<Rightarrow> (bytes \<times> string) option"

definition DetectFileType :: "externals \<Rightarrow> bytes \<Rightarrow> string \<Rightarrow> FileType \<times> string" where
  "DetectFileType ext fileBytes filename =
     (let dotted = ToLower (filepath_Ext filename);
          e = (if dotted \<noteq> [] then drop 1 dotted else dotted);
          contentType = DetectContentType ext fileBytes
      in if HasPrefix contentType ''image/'' then (FileTypeImage, e)
         else if HasPrefix contentType ''audio/'' then (FileTypeAudio, e)
         else if HasPrefix contentType ''video/'' then (FileTypeVideo, e)
         else if HasPrefix contentType ''application/pdf''
               \<or> HasPrefix contentType ''application/msword''
               \<or> HasPrefix contentType
                    ''application/vnd.openxmlformats-officedocument.wordprocessingml.document''
               \<or> HasPrefix contentType ''text/'' then (FileTypeDoc, e)
         else if HasPrefix contentType ''application/zip''
               \<or> HasPrefix contentType ''application/x-tar''
               \<or> HasPrefix contentType ''application/x-rar-compressed'' then (FileTypeArchive, e)
         else if e \<in> set [''jpg'', ''jpeg'', ''png'', ''gif'', ''webp'', ''bmp'', ''tiff'', ''svg'']
           then (FileTypeImage, e)
         else if e \<in> set [''mp3'', ''wav'', ''ogg'', ''flac'', ''aac'', ''wma'']
           then (FileTypeAudio, e)
         else if e \<in> set [''mp4'', ''avi'', ''mov'', ''webm'', ''mkv'', ''flv'']
           then (FileTypeVideo, e)
         else if e \<in> set [''pdf'', ''doc'', ''docx'', ''txt'', ''html'', ''md'', ''ppt'', ''pptx'',
                            ''xls'', ''xlsx'', ''csv'']
           then (FileTypeDoc, e)
         else if e \<in> set [''zip'', ''tar'', ''rar''] then (FileTypeArchive, e)
         else (FileTypeOther, e))"

definition markdownLine :: "string \<Rightarrow> string" where
  "markdownLine line =
     (if HasPrefix line ''# '' then ''<h1>'' @ drop 2 line @ ''</h1>\<newline>''
      else if HasPrefix line ''## '' then ''<h2>'' @ drop 3 line @ ''</h2>\<newline>''
      else if HasPrefix line ''### '' then ''<h3>'' @ drop 4 line @ ''</h3>\<newline>''
      else if HasPrefix line ''- '' then ''<li>'' @ drop 2 line @ ''</li>\<newline>''
      else if line = [] then ''<br/>\<newline>''
      else ''<p>'' @ line @ ''</p>\<newline>'')"

definition convertMarkdown ::
  "externals \<Rightarrow> bytes \<Rightarrow> string \<Rightarrow> string \<Rightarrow> (bytes \<times> string) option" where
  "convertMarkdown ext mdContent outputPath targetFormat =
     (if \<not> TempFiles_ok ext then None
      else if targetFormat = ''html'' then
        Some (bytes_of_string
                (''<html><body>\<newline>''
                 @ concat (map markdownLine (Split (string_of_bytes mdContent) (CHR ''\<newline>'')))
                 @ ''</body></html>''),
              filepath_Base outputPath)
      else if targetFormat = ''txt'' then Some (mdContent, filepath_Base outputPath)
      else None)"

definition convertDocument ::
  "externals \<Rightarrow> bytes \<Rightarrow> string \<Rightarrow> string \<Rightarrow> string \<Rightarrow> (bytes \<times> string) option" where
  "convertDocument ext inputFileBytes outputFilename sourceExt targetFormat =
     (let tempOutputPath = filepath_Join (TempDir ext) outputFilename in
      if \<not> TempFiles_ok ext then None
      else if sourceExt = ''md'' \<and> (targetFormat = ''html'' \<or> targetFormat = ''txt'') then
        convertMarkdown ext inputFileBytes tempOutputPath targetFormat
      else if sourceExt = ''txt'' \<and> targetFormat = ''pdf'' then
        (case wkhtmltopdf ext inputFileBytes of
           None \<Rightarrow> None
         | Some outputBytes \<Rightarrow> Some (outputBytes, outputFilename))
      else None)"

definition convertAudio ::
  "externals \<Rightarrow> bytes \<Rightarrow> string \<Rightarrow> string \<Rightarrow> string \<Rightarrow> (bytes \<times> string) option" where
  "convertAudio ext inputFileBytes outputFilename sourceExt targetFormat =
     convertMediaWithFFmpeg ext inputFileBytes outputFilename sourceExt targetFormat ''audio''"

definition convertVideo ::
  "externals \<Rightarrow> bytes \<Rightarrow> string \<Rightarrow> string \<Rightarrow> string \<Rightarrow> (bytes \<times> string) option" where
  "convertVideo ext inputFileBytes outputFilename sourceExt targetFormat =
     (let mediaType =
        (if targetFormat = ''mp3'' \<or> targetFormat = ''wav'' \<or> targetFormat = ''ogg''
            \<or> targetFormat = ''flac'' \<or> targetFormat = ''aac'' then ''audio'' else ''video'')
      in convertMediaWithFFmpeg ext inputFileBytes outputFilename sourceExt targetFormat mediaType)"

definition performConversion ::
  "externals \<Rightarrow> bytes \<Rightarrow> string \<Rightarrow> string \<Rightarrow> (bytes \<times> string) option" where
  "performConversion ext inputFileBytes originalFilename targetFormat =
     (case DetectFileType ext inputFileBytes originalFilename of (fileType, sourceExt) \<Rightarrow>
        (let baseName = TrimSuffix originalFilename (filepath_Ext originalFilename);
             outputFilename = baseName @ ''.'' @ targetFormat;
             supported =
               (case map_of ConversionMap fileType of
                  None \<Rightarrow> False
                | Some formatMap \<Rightarrow>
                    (case map_of formatMap sourceExt of
                       None \<Rightarrow> False
                     | Some formats \<Rightarrow> targetFormat \<in> set formats))
         in if \<not> supported then None
            else
              (case fileType of
                 FileTypeImage \<Rightarrow> convertImage ext inputFileBytes outputFilename targetFormat
               | FileTypeAudio \<Rightarrow>
                   convertAudio ext inputFileBytes outputFilename sourceExt targetFormat
               | FileTypeVideo \<Rightarrow>
                   convertVideo ext inputFileBytes outputFilename sourceExt targetFormat
               | FileTypeDoc \<Rightarrow>
                   convertDocument ext inputFileBytes outputFilename sourceExt targetFormat
               | FileTypeArchive \<Rightarrow>
                   convertArchive ext inputFileBytes outputFilename sourceExt targetFormat
               | FileTypeOther \<Rightarrow> None)))"

subsection \<open>Sample inputs\<close>

text \<open>
  \<open>ext_text\<close> is an environment in which \<^verbatim>\<open>http.DetectContentType\<close> answers
  \<^verbatim>\<open>text/plain; charset=utf-8\<close>, as it does on the Markdown text of the samples, and
  the temporary files can be written; no sample reaches an external converter.
  \<open>md_bytes\<close> is the upload \<^verbatim>\<open># A\<close> and \<open>html_bytes\<close> the page that
  \<^verbatim>\<open>convertMarkdown\<close> makes of it. \<open>big\<close> is a payload one byte above the RAM
  budget.
\<close>

definition ext_text :: externals where
  "ext_text = \<lparr>DetectContentType = (\<lambda>b. ''text/plain; charset=utf-8''),
      TempDir = ''/tmp'', TempFiles_ok = True,
      convertImage = (\<lambda>b out fmt. None),
      convertMediaWithFFmpeg = (\<lambda>b out src fmt media. None),
      wkhtmltopdf = (\<lambda>b. None),
      convertArchive = (\<lambda>b out src fmt. None)\<rparr>"

definition md_bytes :: bytes where
  "md_bytes = bytes_of_string ''# A''"

definition html_bytes :: bytes where
  "html_bytes = bytes_of_string ''<html><body>\<newline><h1>A</h1>\<newline></body></html>''"

definition id_a :: string where
  "id_a = ''000102030405060708090a0b0c0d0e0f''"

definition env_small :: put_env where
  "env_small = \<lparr>generateID_result = Some id_a,
      ReadAll_result = Some [1, 2, 3], now_UploadTime = 1000, now_ExpiryTime = 1001,
      WriteFile_ok = True\<rparr>"

definition header_a :: FileHeader where
  "header_a = \<lparr>Filename = ''a.jpg'', HeaderContentType = ''image/jpeg''\<rparr>"

definition header_b :: FileHeader where
  "header_b = \<lparr>Filename = ''b.jpg'', HeaderContentType = ''image/jpeg''\<rparr>"

definition env_md :: put_env where
  "env_md = env_small\<lparr>ReadAll_result := Some md_bytes\<rparr>"

definition header_md :: FileHeader where
  "header_md = \<lparr>Filename = ''a.md'', HeaderContentType = ''text/markdown''\<rparr>"

definition store0 :: FileStore where
  "store0 = \<lparr>files = Map.empty, ramStore = Map.empty, currentRAMUsage = 0,
       diskPath = ''temp_files''\<rparr>"

definition big :: bytes where
  "big = replicate (2 ^ 34 + 1) 0"

definition env_big :: put_env where
  "env_big = env_small\<lparr>ReadAll_result := Some big\<rparr>"

definition meta_small :: FileMetadata where
  "meta_small = \<lparr>ID = id_a, OriginalName = ''a.jpg'',
      ConvertedName = ''a.jpg'', Size = 3, UploadTime = 1000,
      ExpiryTime = 1001 + fileExpiryDuration, IsInMemory = True, Path = [],
      ContentType = ''image/jpeg''\<rparr>"

definition meta_md :: FileMetadata where
  "meta_md = meta_small\<lparr>OriginalName := ''a.md'', ConvertedName := ''a.html'',
      ContentType := ''text/html''\<rparr>"

definition meta_big :: FileMetadata where
  "meta_big = meta_small\<lparr>Size := 2 ^ 34 + 1, IsInMemory := False,
      Path := ''temp_files/000102030405060708090a0b0c0d0e0f_a.jpg''\<rparr>"

definition meta_big_b :: FileMetadata where
  "meta_big_b = meta_big\<lparr>OriginalName := ''b.jpg'', ConvertedName := ''b.jpg'',
      Path := ''temp_files/000102030405060708090a0b0c0d0e0f_b.jpg''\<rparr>"

definition store_small :: FileStore where
  "store_small = store0\<lparr>ramStore := [id_a \<mapsto> [1, 2, 3]], currentRAMUsage := 3,
      files := [id_a \<mapsto> meta_small]\<rparr>"

definition store_md :: FileStore where
  "store_md = store0\<lparr>ramStore := [id_a \<mapsto> html_bytes], currentRAMUsage := 38,
      files := [id_a \<mapsto> meta_md]\<rparr>"

definition store_big :: FileStore where
  "store_big = store0\<lparr>files := [id_a \<mapsto> meta_big]\<rparr>"

definition disk_big :: disk where
  "disk_big = [''temp_files/000102030405060708090a0b0c0d0e0f_a.jpg'' \<mapsto> big]"

section \<open>Basic facts\<close>

lemma int64_id: "- (2 ^ 63) \<le> x \<Longrightarrow> x < 2 ^ 63 \<Longrightarrow> int64 x = x"
  by (simp add: int64_def algebra_simps)

lemma deleteFileInternal_absent:
  "files fs fileID = None \<Longrightarrow> deleteFileInternal rm fileID (fs, dsk) = (fs, dsk)"
  by (simp add: deleteFileInternal_def)

lemma deleteFileInternal_files:
  "files (fst (deleteFileInternal rm fileID (fs, dsk))) = (files fs)(fileID := None)"
  by (auto simp: deleteFileInternal_def split: option.splits)

lemma deleteFileInternal_ramStore_other:
  "i \<noteq> fileID \<Longrightarrow>
     ramStore (fst (deleteFileInternal rm i st)) fileID = ramStore (fst st) fileID"
  by (cases st) (auto simp: deleteFileInternal_def split: option.splits)

subsection \<open>The two halves of AddFile\<close>

lemma AddFile_prepare_Inr:
  "AddFile_prepare conv env header targetFormat = Inr (fileID, meta, fileSize, fileBytes) \<Longrightarrow>
     fileSize = int (length fileBytes) \<and> ID meta = fileID \<and> generateID_result env = Some fileID
     \<and> UploadTime meta = now_UploadTime env
     \<and> ExpiryTime meta = now_ExpiryTime env + fileExpiryDuration"
  by (auto simp: AddFile_prepare_def Let_def split: option.splits if_splits)

lemma AddFile_prepare_plain:
  "AddFile_prepare conv env header [] = Inr (fileID, meta, fileSize, fileBytes) \<Longrightarrow>
     ReadAll_result env = Some fileBytes \<and> Size meta = int (length fileBytes)
     \<and> ConvertedName meta = Filename header"
  by (auto simp: AddFile_prepare_def Let_def split: option.splits if_splits)

lemma AddFile_store_cases:
  assumes "- (2 ^ 63) \<le> currentRAMUsage fs + fileSize" "currentRAMUsage fs + fileSize < 2 ^ 63"
  shows "AddFile_store join env (fileID, meta, fileSize, fileBytes) (fs, dsk) =
     (if currentRAMUsage fs + fileSize \<le> ramLimitBytes then
        (Inr (meta\<lparr>IsInMemory := True\<rparr>),
         fs\<lparr>ramStore := (ramStore fs)(fileID \<mapsto> fileBytes),
            currentRAMUsage := currentRAMUsage fs + fileSize,
            files := (files fs)(fileID \<mapsto> meta\<lparr>IsInMemory := True\<rparr>)\<rparr>, dsk)
      else if \<not> WriteFile_ok env then (Inl DiskWriteFailed, fs, dsk)
      else (Inr (meta\<lparr>IsInMemory := False,
                     Path := join (diskPath fs) (fileID @ ''_'' @ ConvertedName meta)\<rparr>),
            fs\<lparr>files := (files fs)(fileID \<mapsto>
                 meta\<lparr>IsInMemory := False,
                      Path := join (diskPath fs) (fileID @ ''_'' @ ConvertedName meta)\<rparr>)\<rparr>,
            dsk(join (diskPath fs) (fileID @ ''_'' @ ConvertedName meta) \<mapsto> fileBytes)))"
  using assms by (simp add: AddFile_store_def int64_id Let_def)

subsection \<open>One tick of the sweep\<close>

lemma cleanupStep_files:
  "files (fst (cleanupStep rm now i st)) fileID =
     (case files (fst st) fileID of
        None \<Rightarrow> None
      | Some meta \<Rightarrow> if fileID = i \<and> ExpiryTime meta < now then None else Some meta)"
  by (cases st) (auto simp: cleanupStep_def deleteFileInternal_files split: option.splits)

lemma cleanupStep_ramStore_kept:
  assumes "files (fst st) fileID = Some meta" "\<not> ExpiryTime meta < now"
  shows "ramStore (fst (cleanupStep rm now i st)) fileID = ramStore (fst st) fileID"
proof (cases "i = fileID")
  case True
  then show ?thesis using assms by (simp add: cleanupStep_def)
next
  case False
  then show ?thesis
    by (simp add: cleanupStep_def deleteFileInternal_ramStore_other split: option.splits)
qed

text \<open>After a tick, the records left are those that were not visited or not expired.\<close>

lemma cleanupTick_files:
  "files (fst (cleanupTick rm now ids st)) fileID =
     (case files (fst st) fileID of
        None \<Rightarrow> None
      | Some meta \<Rightarrow> if fileID \<in> set ids \<and> ExpiryTime meta < now then None else Some meta)"
proof (induction ids arbitrary: st)
  case Nil
  then show ?case by (simp add: cleanupTick_def split: option.splits)
next
  case (Cons i ids)
  have "cleanupTick rm now (i # ids) st = cleanupTick rm now ids (cleanupStep rm now i st)"
    by (simp add: cleanupTick_def)
  then show ?case
    by (auto simp: Cons.IH cleanupStep_files split: option.splits)
qed

lemma cleanupTick_ramStore_kept:
  assumes "files (fst st) fileID = Some meta" "\<not> ExpiryTime meta < now"
  shows "ramStore (fst (cleanupTick rm now ids st)) fileID = ramStore (fst st) fileID"
  using assms
proof (induction ids arbitrary: st)
  case Nil
  then show ?case by (simp add: cleanupTick_def)
next
  case (Cons i ids)
  have step: "cleanupTick rm now (i # ids) st = cleanupTick rm now ids (cleanupStep rm now i st)"
    by (simp add: cleanupTick_def)
  have kept: "files (fst (cleanupStep rm now i st)) fileID = Some meta"
    using Cons.prems by (simp add: cleanupStep_files)
  show ?case
    unfolding step
    using Cons.IH [OF kept Cons.prems(2)] cleanupStep_ramStore_kept [OF Cons.prems]
    by simp
qed

subsection \<open>Paths\<close>















text \<open>A name with separators can leave the directory.\<close>

lemma Join_leaves_directory:
  "filepath_Join ''temp_files'' (''00ff'' @ ''_'' @ ''/../../etc/x'') = ''etc/x''"
  by (simp add: filepath_Join_def filepath_Clean_def Clean_elements_def Clean_step_def)

subsection \<open>The sample calls\<close>

lemmas sample_defs = ext_text_def md_bytes_def html_bytes_def env_small_def env_md_def
  header_a_def header_b_def header_md_def store0_def env_big_def meta_small_def meta_md_def
  meta_big_def meta_big_b_def store_small_def store_md_def store_big_def disk_big_def id_a_def

lemmas AddFile_defs = AddFile_def AddFile_prepare_def AddFile_store_def Let_def
  int64_def ramLimitBytes_def getContentTypeForExtension_def contentTypeTable_def

lemmas conv_defs = performConversion_def DetectFileType_def convertDocument_def
  convertMarkdown_def markdownLine_def ConversionMap_def HasPrefix_def HasSuffix_def
  TrimSuffix_def ToLower_def filepath_Ext_def filepath_Base_def filepath_Join_def
  filepath_Clean_def Clean_elements_def Clean_step_def

lemma string_of_bytes_of_string: "string_of_bytes (bytes_of_string s) = s"
  by (induction s) (simp_all add: string_of_bytes_def bytes_of_string_def unat_of_nat)

lemma length_big: "int (length big) = 2 ^ 34 + 1"
  by (simp add: big_def)

lemma length_md_bytes: "int (length md_bytes) = 3"
  by (simp add: md_bytes_def bytes_of_string_def)

lemma length_html_bytes: "int (length html_bytes) = 38"
  by (simp add: html_bytes_def bytes_of_string_def)

lemma NewFileStore_default: "NewFileStore (\<lambda>p. True) [] = Some store0"
  by (simp add: NewFileStore_def store0_def defaultDiskPath_def)

text \<open>The conversion of the sample: \<^verbatim>\<open># A\<close> in \<^verbatim>\<open>a.md\<close> becomes a page of 38 bytes.\<close>

lemma convert_md_html:
  "performConversion ext_text md_bytes ''a.md'' ''html'' = Some (html_bytes, ''a.html'')"
  by (simp add: conv_defs ext_text_def md_bytes_def html_bytes_def string_of_bytes_of_string)

lemma convert_md_png:
  "performConversion ext_text md_bytes ''a.md'' ''png'' = None"
  by (simp add: conv_defs ext_text_def)

lemma Join_sample_a:
  "filepath_Join ''temp_files'' (id_a @ ''_a.jpg'')
     = ''temp_files/000102030405060708090a0b0c0d0e0f_a.jpg''"
  by (simp add: conv_defs id_a_def)


lemma prepare_md:
  "AddFile_prepare (performConversion ext_text) env_md header_md ''html''
     = Inr (id_a, meta_md\<lparr>IsInMemory := False\<rparr>, 38, html_bytes)"
  by (simp add: AddFile_prepare_def Let_def env_md_def env_small_def header_md_def
      convert_md_html length_md_bytes length_html_bytes meta_md_def meta_small_def
      getContentTypeForExtension_def contentTypeTable_def)

lemma prepare_big:
  "AddFile_prepare (performConversion ext_text) env_big header_a []
     = Inr (id_a, meta_big\<lparr>Path := []\<rparr>, 2 ^ 34 + 1, big)"
  by (simp add: AddFile_prepare_def Let_def env_big_def env_small_def header_a_def length_big
      meta_big_def meta_small_def)

lemma put_small:
  "AddFile filepath_Join (performConversion ext_text) env_small header_a [] (store0, Map.empty)
     = (Inr meta_small, store_small, Map.empty)"
  by (simp add: AddFile_defs env_small_def header_a_def store0_def meta_small_def store_small_def)

lemma put_md:
  "AddFile filepath_Join (performConversion ext_text) env_md header_md ''html'' (store0, Map.empty)
     = (Inr meta_md, store_md, Map.empty)"
  by (simp add: AddFile_def prepare_md AddFile_store_def Let_def int64_def ramLimitBytes_def
      store0_def store_md_def meta_md_def meta_small_def)

lemma put_big:
  "AddFile filepath_Join (performConversion ext_text) env_big header_a [] (store0, Map.empty)
     = (Inr meta_big, store_big, disk_big)"
  by (simp add: AddFile_def prepare_big AddFile_store_def Let_def int64_def ramLimitBytes_def
      store0_def,
      simp add: store_big_def disk_big_def meta_big_def meta_small_def env_big_def env_small_def
        store0_def Join_sample_a)


lemma put_big_write_fails:
  "AddFile filepath_Join (performConversion ext_text) (env_big\<lparr>WriteFile_ok := False\<rparr>) header_a []
       (store0, Map.empty)
     = (Inl DiskWriteFailed, store0, Map.empty)"
  by (simp add: AddFile_defs env_big_def env_small_def header_a_def store0_def length_big)

lemma put_unsupported_conversion:
  "AddFile filepath_Join (performConversion ext_text) env_md header_md ''png''
       (store_small, Map.empty)
     = (Inl ConversionFailed, store_small, Map.empty)"
  by (simp add: AddFile_def AddFile_prepare_def Let_def env_md_def env_small_def header_md_def
      convert_md_png)

lemma AddFile_Inr_prepared:
  assumes "fst (AddFile join conv env header targetFormat st) = Inr meta"
  obtains fileID meta0 fileSize fileBytes where
    "AddFile_prepare conv env header targetFormat = Inr (fileID, meta0, fileSize, fileBytes)"
    "AddFile join conv env header targetFormat st
       = AddFile_store join env (fileID, meta0, fileSize, fileBytes) st"
proof (cases "AddFile_prepare conv env header targetFormat")
  case (Inl e)
  with assms show ?thesis by (simp add: AddFile_def)
next
  case (Inr p)
  obtain fileID meta0 fileSize fileBytes where p: "p = (fileID, meta0, fileSize, fileBytes)"
    by (cases p)
  show ?thesis
    using that [of fileID meta0 fileSize fileBytes] Inr p by (simp add: AddFile_def)
qed

text \<open>What a successful call of the second half returns, with or without wrap-around.\<close>

lemma AddFile_store_Inr:
  assumes "fst (AddFile_store join env (fileID, meta0, fileSize, fileBytes) (fs, dsk)) = Inr meta"
  shows "UploadTime meta = UploadTime meta0 \<and> ExpiryTime meta = ExpiryTime meta0
       \<and> ID meta = ID meta0 \<and> ConvertedName meta = ConvertedName meta0
       \<and> Size meta = Size meta0
       \<and> files (fst (snd (AddFile_store join env (fileID, meta0, fileSize, fileBytes) (fs, dsk))))
            fileID = Some meta
       \<and> (\<not> IsInMemory meta \<longrightarrow>
            Path meta = join (diskPath fs) (fileID @ ''_'' @ ConvertedName meta)
            \<and> snd (snd (AddFile_store join env (fileID, meta0, fileSize, fileBytes) (fs, dsk)))
                = dsk(Path meta \<mapsto> fileBytes))"
  using assms by (auto simp: AddFile_store_def Let_def split: if_splits)

subsection \<open>The accounting of RAM\<close>

lemma reachable_store_md:
  "reachable filepath_Join (performConversion ext_text) (store_md, Map.empty)"
proof -
  have s: "reachable filepath_Join (performConversion ext_text) (store0, Map.empty)"
    by (rule reachable.start [OF NewFileStore_default])
  have f: "fresh_id env_md (store0, Map.empty)"
    by (simp add: fresh_id_def env_md_def env_small_def store0_def)
  have p: "payload_fits (performConversion ext_text) env_md header_md ''html''"
    using length_html_bytes by (simp add: payload_fits_def prepare_md)
  show ?thesis
    using reachable.put [OF s f p] by (simp add: put_md)
qed

lemma memoryRecords_store_md: "memoryRecords store_md = {id_a}"
  by (auto simp: memoryRecords_def store_md_def store0_def meta_md_def meta_small_def
      split: if_splits)

lemma ramStoreBytes_nonneg: "0 \<le> ramStoreBytes fs"
  by (simp add: ramStoreBytes_def sum_nonneg)

lemma ramStoreBytes_insert:
  assumes "finite (dom (ramStore fs))" "ramStore fs fileID = None"
  shows "ramStoreBytes (fs\<lparr>ramStore := (ramStore fs)(fileID \<mapsto> b), currentRAMUsage := u, files := f\<rparr>)
     = ramStoreBytes fs + int (length b)"
proof -
  have notin: "fileID \<notin> dom (ramStore fs)"
    using assms(2) by (simp add: domIff)
  have "(\<Sum>i \<in> dom (ramStore fs). int (length (the (((ramStore fs)(fileID \<mapsto> b)) i))))
      = (\<Sum>i \<in> dom (ramStore fs). int (length (the (ramStore fs i))))"
    by (rule sum.cong) (use notin in auto)
  then show ?thesis
    using assms(1) notin by (simp add: ramStoreBytes_def)
qed

lemma ramStoreBytes_remove:
  assumes "finite (dom (ramStore fs))" "ramStore fs fileID = Some b"
  shows "ramStoreBytes (fs\<lparr>currentRAMUsage := u, ramStore := (ramStore fs)(fileID := None)\<rparr>)
     = ramStoreBytes fs - int (length b)"
proof -
  have isin: "fileID \<in> dom (ramStore fs)"
    using assms(2) by (simp add: domIff)
  have split: "(\<Sum>i \<in> dom (ramStore fs). int (length (the (ramStore fs i))))
      = int (length b) + (\<Sum>i \<in> dom (ramStore fs) - {fileID}. int (length (the (ramStore fs i))))"
    using sum.remove [OF assms(1) isin, of "\<lambda>i. int (length (the (ramStore fs i)))"] assms(2)
    by simp
  have "(\<Sum>i \<in> dom (ramStore fs) - {fileID}. int (length (the (((ramStore fs)(fileID := None)) i))))
      = (\<Sum>i \<in> dom (ramStore fs) - {fileID}. int (length (the (ramStore fs i))))"
    by (rule sum.cong) auto
  then show ?thesis
    using split by (simp add: ramStoreBytes_def)
qed

lemma store_inv_start: "NewFileStore mkdirAll dp = Some fs \<Longrightarrow> store_inv fs"
  by (auto simp: NewFileStore_def store_inv_def memoryRecords_def ramStoreBytes_def
      ramLimitBytes_def Let_def split: if_splits)

lemma store_inv_delete:
  assumes "store_inv fs"
  shows "store_inv (fst (deleteFileInternal rm fileID (fs, dsk)))"
proof (cases "files fs fileID")
  case None
  then show ?thesis using assms by (simp add: deleteFileInternal_absent)
next
  case (Some meta)
  have fin: "finite (dom (ramStore fs))" and dm: "memoryRecords fs = dom (ramStore fs)"
    and use: "currentRAMUsage fs = ramStoreBytes fs" and le: "currentRAMUsage fs \<le> ramLimitBytes"
    using assms unfolding store_inv_def by blast+
  show ?thesis
  proof (cases "IsInMemory meta")
    case True
    then have "fileID \<in> memoryRecords fs"
      using Some by (simp add: memoryRecords_def)
    then obtain b where b: "ramStore fs fileID = Some b"
      using dm by (auto simp: domIff)
    let ?fs1 = "fs\<lparr>currentRAMUsage := int64 (currentRAMUsage fs - int (length b)),
           ramStore := (ramStore fs)(fileID := None)\<rparr>"
    have res: "fst (deleteFileInternal rm fileID (fs, dsk)) = ?fs1\<lparr>files := (files fs)(fileID := None)\<rparr>"
      using Some True b by (simp add: deleteFileInternal_def)
    have rem: "ramStoreBytes ?fs1 = ramStoreBytes fs - int (length b)"
      by (rule ramStoreBytes_remove [OF fin b])
    have nn: "0 \<le> ramStoreBytes ?fs1"
      by (rule ramStoreBytes_nonneg)
    have rng: "0 \<le> currentRAMUsage fs - int (length b)"
      "currentRAMUsage fs - int (length b) \<le> ramLimitBytes"
      using rem nn use le by simp_all
    have wrap: "int64 (currentRAMUsage fs - int (length b)) = currentRAMUsage fs - int (length b)"
      using rng by (intro int64_id) (simp_all add: ramLimitBytes_def)
    have bytes: "ramStoreBytes (?fs1\<lparr>files := (files fs)(fileID := None)\<rparr>) = ramStoreBytes ?fs1"
      by (simp add: ramStoreBytes_def)
    have dom': "memoryRecords (?fs1\<lparr>files := (files fs)(fileID := None)\<rparr>)
        = dom (ramStore (?fs1\<lparr>files := (files fs)(fileID := None)\<rparr>))"
      using dm [symmetric] by (auto simp: memoryRecords_def domIff split: if_splits)
    show ?thesis
      unfolding res store_inv_def
      using fin dom' bytes rem wrap use rng by simp
  next
    case False
    then have notin: "fileID \<notin> memoryRecords fs"
      using Some by (simp add: memoryRecords_def)
    have res: "fst (deleteFileInternal rm fileID (fs, dsk)) = fs\<lparr>files := (files fs)(fileID := None)\<rparr>"
      using Some False by (simp add: deleteFileInternal_def)
    have dom': "memoryRecords (fs\<lparr>files := (files fs)(fileID := None)\<rparr>)
        = dom (ramStore (fs\<lparr>files := (files fs)(fileID := None)\<rparr>))"
      using dm [symmetric] notin by (auto simp: memoryRecords_def domIff split: if_splits)
    show ?thesis
      unfolding res store_inv_def
      using fin dom' use le by (simp add: ramStoreBytes_def)
  qed
qed

lemma store_inv_AddFile:
  assumes inv: "store_inv fs"
    and fresh: "fresh_id env (fs, dsk)"
    and fits: "payload_fits conv env header targetFormat"
  shows "store_inv (fst (snd (AddFile join conv env header targetFormat (fs, dsk))))"
proof (cases "AddFile_prepare conv env header targetFormat")
  case (Inl e)
  then show ?thesis using inv by (simp add: AddFile_def)
next
  case (Inr p)
  obtain i meta0 fileSize b where p: "p = (i, meta0, fileSize, b)"
    by (cases p)
  have prep: "AddFile_prepare conv env header targetFormat = Inr (i, meta0, fileSize, b)"
    using Inr p by simp
  have fin: "finite (dom (ramStore fs))" and dm: "memoryRecords fs = dom (ramStore fs)"
    and use: "currentRAMUsage fs = ramStoreBytes fs" and le: "currentRAMUsage fs \<le> ramLimitBytes"
    using inv unfolding store_inv_def by blast+
  have sz: "fileSize = int (length b)" and gen: "generateID_result env = Some i"
    using AddFile_prepare_Inr [OF prep] by simp_all
  have short: "int (length b) < 2 ^ 62"
    using fits by (simp add: payload_fits_def prep)
  have absent: "files fs i = None"
    using fresh gen by (simp add: fresh_id_def)
  then have "i \<notin> memoryRecords fs"
    by (simp add: memoryRecords_def)
  then have noram: "ramStore fs i = None"
    using dm by (auto simp: domIff)
  have nn: "0 \<le> currentRAMUsage fs"
    using use ramStoreBytes_nonneg [of fs] by simp
  have lo: "- (2 ^ 63) \<le> currentRAMUsage fs + fileSize"
    using nn sz by simp
  have hi: "currentRAMUsage fs + fileSize < 2 ^ 63"
    using le short sz by (simp add: ramLimitBytes_def)
  have run: "AddFile join conv env header targetFormat (fs, dsk)
      = AddFile_store join env (i, meta0, fileSize, b) (fs, dsk)"
    by (simp add: AddFile_def prep)
  show ?thesis
  proof (cases "currentRAMUsage fs + fileSize \<le> ramLimitBytes")
    case True
    let ?m = "meta0\<lparr>IsInMemory := True\<rparr>"
    let ?fs = "fs\<lparr>ramStore := (ramStore fs)(i \<mapsto> b),
                   currentRAMUsage := currentRAMUsage fs + fileSize,
                   files := (files fs)(i \<mapsto> ?m)\<rparr>"
    have res: "fst (snd (AddFile join conv env header targetFormat (fs, dsk))) = ?fs"
      unfolding run AddFile_store_cases [OF lo hi] using True by simp
    have bytes: "ramStoreBytes ?fs = ramStoreBytes fs + int (length b)"
      by (rule ramStoreBytes_insert [OF fin noram])
    have recs: "memoryRecords ?fs = insert i (memoryRecords fs)"
      by (auto simp: memoryRecords_def split: if_splits)
    show ?thesis
      unfolding res store_inv_def using fin bytes recs dm use sz True by simp
  next
    case False
    show ?thesis
    proof (cases "WriteFile_ok env")
      case wr: False
      have "fst (snd (AddFile join conv env header targetFormat (fs, dsk))) = fs"
        unfolding run AddFile_store_cases [OF lo hi] using False wr by simp
      then show ?thesis using inv by simp
    next
      case wr: True
      let ?m = "meta0\<lparr>IsInMemory := False,
                      Path := join (diskPath fs) (i @ ''_'' @ ConvertedName meta0)\<rparr>"
      let ?fs = "fs\<lparr>files := (files fs)(i \<mapsto> ?m)\<rparr>"
      have res: "fst (snd (AddFile join conv env header targetFormat (fs, dsk))) = ?fs"
        unfolding run AddFile_store_cases [OF lo hi] using False wr by simp
      have recs: "memoryRecords ?fs = memoryRecords fs"
        using absent by (auto simp: memoryRecords_def split: if_splits)
      have bytes: "ramStoreBytes ?fs = ramStoreBytes fs"
        by (simp add: ramStoreBytes_def)
      show ?thesis
        unfolding res store_inv_def using fin bytes recs dm use le by simp
    qed
  qed
qed

lemma store_inv_GetFile:
  assumes "store_inv fs"
  shows "store_inv (fst (snd (GetFile rm now fileID (fs, dsk))))"
proof -
  have "snd (GetFile rm now fileID (fs, dsk)) = (fs, dsk)
      \<or> snd (GetFile rm now fileID (fs, dsk)) = deleteFileInternal rm fileID (fs, dsk)"
    by (simp add: GetFile_def split: option.splits)
  then show ?thesis
    using assms store_inv_delete [OF assms, of rm fileID dsk] by auto
qed

lemma store_inv_cleanupStep:
  assumes "store_inv (fst st)"
  shows "store_inv (fst (cleanupStep rm now i st))"
proof -
  obtain fs dsk where st: "st = (fs, dsk)"
    by (cases st)
  have "cleanupStep rm now i st = st \<or> cleanupStep rm now i st = deleteFileInternal rm i st"
    by (simp add: cleanupStep_def split: option.splits)
  then show ?thesis
    using assms store_inv_delete [of fs rm i dsk] st by auto
qed

lemma store_inv_cleanupTick:
  "store_inv (fst st) \<Longrightarrow> store_inv (fst (cleanupTick rm now ids st))"
proof (induction ids arbitrary: st)
  case Nil
  then show ?case by (simp add: cleanupTick_def)
next
  case (Cons i ids)
  have "cleanupTick rm now (i # ids) st = cleanupTick rm now ids (cleanupStep rm now i st)"
    by (simp add: cleanupTick_def)
  then show ?case
    using Cons.IH [OF store_inv_cleanupStep [OF Cons.prems]] by simp
qed

text \<open>Every state of a run satisfies the invariant.\<close>

lemma reachable_store_inv:
  "reachable join conv st \<Longrightarrow> store_inv (fst st)"
proof (induction rule: reachable.induct)
  case (start mkdirAll dp fs dsk)
  then show ?case by (simp add: store_inv_start)
next
  case (put st env header targetFormat)
  obtain fs dsk where st: "st = (fs, dsk)"
    by (cases st)
  show ?case
    using put store_inv_AddFile [of fs env dsk conv header targetFormat join] st by simp
next
  case (get st rm now fileID)
  obtain fs dsk where st: "st = (fs, dsk)"
    by (cases st)
  show ?case
    using get store_inv_GetFile [of fs rm now fileID dsk] st by simp
next
  case (evict st rm fileID)
  obtain fs dsk where st: "st = (fs, dsk)"
    by (cases st)
  show ?case
    using evict store_inv_delete [of fs rm fileID dsk] st by simp
next
  case (sweep st rm now ids)
  then show ?case by (simp add: store_inv_cleanupTick)
qed

text \<open>
  In every state of a run each record held in RAM has its content in \<^verbatim>\<open>ramStore\<close>,
  the counter is the number of bytes held there, and it lies between 0 and the budget.
\<close>

lemma reachable_accounting:
  assumes "reachable join conv (fs, dsk)"
  shows "(\<forall>fileID meta. files fs fileID = Some meta \<and> IsInMemory meta
            \<longrightarrow> (\<exists>content. ramStore fs fileID = Some content))
       \<and> currentRAMUsage fs = ramStoreBytes fs
       \<and> 0 \<le> currentRAMUsage fs \<and> currentRAMUsage fs \<le> ramLimitBytes"
proof -
  have inv: "store_inv fs"
    using reachable_store_inv [OF assms] by simp
  have dm: "memoryRecords fs = dom (ramStore fs)"
    and use: "currentRAMUsage fs = ramStoreBytes fs" and le: "currentRAMUsage fs \<le> ramLimitBytes"
    using inv unfolding store_inv_def by blast+
  have "\<exists>content. ramStore fs fileID = Some content"
    if "files fs fileID = Some meta" "IsInMemory meta" for fileID meta
  proof -
    have "fileID \<in> memoryRecords fs"
      using that by (auto simp: memoryRecords_def)
    then show ?thesis
      using dm by (auto simp: domIff)
  qed
  then show ?thesis
    using use le ramStoreBytes_nonneg [of fs] by auto
qed

lemma AddFile_prepare_Size:
  assumes "length_preserving conv"
    and "AddFile_prepare conv env header targetFormat = Inr (fileID, meta, fileSize, fileBytes)"
  shows "Size meta = int (length fileBytes)"
  using assms unfolding length_preserving_def
  by (fastforce simp: AddFile_prepare_def Let_def split: option.splits if_splits)

lemma sizes_agree_delete:
  assumes "sizes_agree fs"
  shows "sizes_agree (fst (deleteFileInternal rm fileID (fs, dsk)))"
  using assms
  by (auto simp: sizes_agree_def deleteFileInternal_def split: option.splits if_splits)

lemma sizes_agree_AddFile:
  assumes lp: "length_preserving conv"
    and inv: "store_inv fs"
    and agree: "sizes_agree fs"
    and fresh: "fresh_id env (fs, dsk)"
  shows "sizes_agree (fst (snd (AddFile join conv env header targetFormat (fs, dsk))))"
proof (cases "AddFile_prepare conv env header targetFormat")
  case (Inl e)
  then show ?thesis using agree by (simp add: AddFile_def)
next
  case (Inr p)
  obtain i meta0 fileSize b where p: "p = (i, meta0, fileSize, b)"
    by (cases p)
  have prep: "AddFile_prepare conv env header targetFormat = Inr (i, meta0, fileSize, b)"
    using Inr p by simp
  have size: "Size meta0 = int (length b)"
    by (rule AddFile_prepare_Size [OF lp prep])
  have dm: "memoryRecords fs = dom (ramStore fs)"
    using inv unfolding store_inv_def by blast
  have "files fs i = None"
    using fresh AddFile_prepare_Inr [OF prep] by (simp add: fresh_id_def)
  then have "i \<notin> memoryRecords fs"
    by (simp add: memoryRecords_def)
  then have noram: "ramStore fs i = None"
    using dm by (auto simp: domIff)
  have run: "AddFile join conv env header targetFormat (fs, dsk)
      = AddFile_store join env (i, meta0, fileSize, b) (fs, dsk)"
    by (simp add: AddFile_def prep)
  show ?thesis
    unfolding run using agree size noram
    by (auto simp: sizes_agree_def AddFile_store_def Let_def split: if_splits)
qed

lemma sizes_agree_cleanupTick:
  "sizes_agree (fst st) \<Longrightarrow> sizes_agree (fst (cleanupTick rm now ids st))"
proof (induction ids arbitrary: st)
  case Nil
  then show ?case by (simp add: cleanupTick_def)
next
  case (Cons i ids)
  obtain fs dsk where st: "st = (fs, dsk)"
    by (cases st)
  have step: "sizes_agree (fst (cleanupStep rm now i st))"
    using Cons.prems sizes_agree_delete [of fs rm i dsk] st
    by (simp add: cleanupStep_def split: option.splits)
  have "cleanupTick rm now (i # ids) st = cleanupTick rm now ids (cleanupStep rm now i st)"
    by (simp add: cleanupTick_def)
  then show ?case
    using Cons.IH [OF step] by simp
qed

lemma reachable_sizes_agree:
  assumes lp: "length_preserving conv"
  shows "reachable join conv st \<Longrightarrow> sizes_agree (fst st)"
proof (induction rule: reachable.induct)
  case (start mkdirAll dp fs dsk)
  then show ?case
    by (auto simp: NewFileStore_def sizes_agree_def Let_def split: if_splits)
next
  case (put st env header targetFormat)
  obtain fs dsk where st: "st = (fs, dsk)"
    by (cases st)
  have "store_inv fs"
    using reachable_store_inv [OF put.hyps(1)] st by simp
  then show ?case
    using put sizes_agree_AddFile [OF lp, of fs env dsk join header targetFormat] st by simp
next
  case (get st rm now fileID)
  obtain fs dsk where st: "st = (fs, dsk)"
    by (cases st)
  have "snd (GetFile rm now fileID (fs, dsk)) = (fs, dsk)
      \<or> snd (GetFile rm now fileID (fs, dsk)) = deleteFileInternal rm fileID (fs, dsk)"
    by (simp add: GetFile_def split: option.splits)
  then show ?case
    using get sizes_agree_delete [of fs rm fileID dsk] st by auto
next
  case (evict st rm fileID)
  obtain fs dsk where st: "st = (fs, dsk)"
    by (cases st)
  show ?case
    using evict sizes_agree_delete [of fs rm fileID dsk] st by simp
next
  case (sweep st rm now ids)
  then show ?case by (simp add: sizes_agree_cleanupTick)
qed

text \<open>
  When the conversion keeps the length of its input (in particular when no upload asks
  for a conversion), the sum of the \<^verbatim>\<open>Size\<close> fields of the records held in RAM is the
  counter in every state of a run.
\<close>

lemma reachable_Size_accounting:
  assumes lp: "length_preserving conv" and run: "reachable join conv (fs, dsk)"
  shows "memorySizeSum fs = currentRAMUsage fs"
proof -
  have inv: "store_inv fs"
    using reachable_store_inv [OF run] by simp
  have agree: "sizes_agree fs"
    using reachable_sizes_agree [OF lp run] by simp
  have dm: "memoryRecords fs = dom (ramStore fs)"
    and use: "currentRAMUsage fs = ramStoreBytes fs"
    using inv unfolding store_inv_def by blast+
  have "(\<Sum>i \<in> dom (ramStore fs). Size (the (files fs i)))
      = (\<Sum>i \<in> dom (ramStore fs). int (length (the (ramStore fs i))))"
  proof (rule sum.cong)
    fix i
    assume "i \<in> dom (ramStore fs)"
    then obtain b where b: "ramStore fs i = Some b"
      by (auto simp: domIff)
    have "i \<in> memoryRecords fs"
      using dm b by (auto simp: domIff)
    then obtain meta where "files fs i = Some meta"
      by (auto simp: memoryRecords_def)
    then show "Size (the (files fs i)) = int (length (the (ramStore fs i)))"
      using agree b by (auto simp: sizes_agree_def)
  qed simp
  then show ?thesis
    by (simp add: memorySizeSum_def ramStoreBytes_def dm use)
qed

section \<open>The claims\<close>

text \<open>
  Claim C1: in every state reached by calls of \<^verbatim>\<open>AddFile\<close>, \<^verbatim>\<open>GetFile\<close>, expiry
  eviction and the sweep, every record held in RAM has its entry in \<^verbatim>\<open>ramStore\<close>,
  and the sum of \<^verbatim>\<open>meta.Size\<close> over the records held in RAM is
  \<^verbatim>\<open>currentRAMUsage\<close>.

  The first half holds in every state of a run, and the counter is the number of bytes
  in \<^verbatim>\<open>ramStore\<close> (\<open>reachable_accounting\<close>); the sum of the \<^verbatim>\<open>Size\<close> fields is
  the counter as long as no conversion changes the length of a payload
  (\<open>reachable_Size_accounting\<close>). The code at one input where a conversion does: the
  three bytes \<^verbatim>\<open># A\<close> are uploaded as \<^verbatim>\<open>a.md\<close> into the new store, to be converted
  to \<^verbatim>\<open>html\<close>. \<^verbatim>\<open>performConversion\<close> returns a page of 38 bytes. The state is
  reached, its one record is held in RAM and has its entry in \<^verbatim>\<open>ramStore\<close>; the
  counter is 38, the length of that entry, and the sum of the \<^verbatim>\<open>Size\<close> fields is 3.
\<close>

theorem ram_accounting_after_conversion:
  "reachable filepath_Join (performConversion ext_text) (store_md, Map.empty)
   \<and> performConversion ext_text md_bytes ''a.md'' ''html'' = Some (html_bytes, ''a.html'')
   \<and> snd (AddFile filepath_Join (performConversion ext_text) env_md header_md ''html''
            (store0, Map.empty))
        = (store_md, Map.empty)
   \<and> memoryRecords store_md = {id_a}
   \<and> ramStore store_md id_a = Some html_bytes
   \<and> int (length html_bytes) = 38
   \<and> memorySizeSum store_md = 3
   \<and> currentRAMUsage store_md = 38
   \<and> memorySizeSum store_md \<noteq> currentRAMUsage store_md"
  by (simp add: reachable_store_md convert_md_html put_md memorySizeSum_def
      memoryRecords_store_md length_html_bytes,
      simp add: store_md_def store0_def meta_md_def meta_small_def)



text \<open>
  Claim C3: the \<^verbatim>\<open>Size\<close> of a record created by \<^verbatim>\<open>AddFile\<close> is the length of the
  payload stored for it, also when a conversion replaced the bytes.

  The code at one input: the three bytes \<^verbatim>\<open># A\<close> are uploaded as \<^verbatim>\<open>a.md\<close>, to be
  converted to \<^verbatim>\<open>html\<close>. \<^verbatim>\<open>performConversion\<close> returns a page of 38 bytes under
  the name \<^verbatim>\<open>a.html\<close>; the 38 bytes are stored in \<^verbatim>\<open>ramStore\<close> and \<^verbatim>\<open>Size\<close>
  is 3.
\<close>

theorem AddFile_Size_after_conversion:
  "ReadAll_result env_md = Some md_bytes
   \<and> int (length md_bytes) = 3
   \<and> performConversion ext_text md_bytes (Filename header_md) ''html''
        = Some (html_bytes, ''a.html'')
   \<and> fst (AddFile filepath_Join (performConversion ext_text) env_md header_md ''html''
            (store0, Map.empty))
        = Inr meta_md
   \<and> IsInMemory meta_md
   \<and> ramStore (fst (snd (AddFile filepath_Join (performConversion ext_text) env_md header_md
            ''html'' (store0, Map.empty)))) (ID meta_md)
        = Some html_bytes
   \<and> int (length html_bytes) = 38
   \<and> Size meta_md = 3"
  by (simp add: put_md convert_md_html length_md_bytes length_html_bytes,
      simp add: env_md_def header_md_def store_md_def store0_def meta_md_def meta_small_def
        convert_md_html)

text \<open>
  Claim C4: a payload larger than the RAM budget, added without conversion, is placed on
  disk, and \<^verbatim>\<open>GetFile\<close> with the returned identifier, before expiry, returns the
  same bytes.

  \<open>x\<close> is what \<^verbatim>\<open>io.ReadAll\<close> returns; the counter is not negative and the sum
  of counter and length is within the range of \<^verbatim>\<open>int64\<close>.
\<close>

theorem disk_round_trip:
  assumes rd: "ReadAll_result env = Some x"
    and large: "ramLimitBytes < int (length x)"
    and nonneg: "0 \<le> currentRAMUsage fs"
    and fits: "currentRAMUsage fs + int (length x) < 2 ^ 63"
    and ok: "fst (AddFile join conv env header [] (fs, dsk)) = Inr meta"
    and live: "\<not> ExpiryTime meta < now"
  shows "\<not> IsInMemory meta
       \<and> snd (snd (AddFile join conv env header [] (fs, dsk))) (Path meta) = Some x
       \<and> fst (GetFile rm now (ID meta) (snd (AddFile join conv env header [] (fs, dsk))))
            = Inr (meta, x)"
proof -
  obtain fileID meta0 fileSize fileBytes where
    prep: "AddFile_prepare conv env header [] = Inr (fileID, meta0, fileSize, fileBytes)"
    and run: "AddFile join conv env header [] (fs, dsk)
       = AddFile_store join env (fileID, meta0, fileSize, fileBytes) (fs, dsk)"
    using AddFile_Inr_prepared [OF ok] by blast
  have bytes: "fileBytes = x"
    using AddFile_prepare_plain [OF prep] rd by simp
  have sz: "fileSize = int (length x)" and idm: "ID meta0 = fileID"
    using AddFile_prepare_Inr [OF prep] bytes by simp_all
  have lo: "- (2 ^ 63) \<le> currentRAMUsage fs + fileSize"
    using nonneg sz by simp
  have hi: "currentRAMUsage fs + fileSize < 2 ^ 63"
    using fits sz by simp
  have over: "\<not> currentRAMUsage fs + fileSize \<le> ramLimitBytes"
    using large nonneg sz by simp
  let ?p = "join (diskPath fs) (fileID @ ''_'' @ ConvertedName meta0)"
  let ?m = "meta0\<lparr>IsInMemory := False, Path := ?p\<rparr>"
  have wr: "WriteFile_ok env"
    using ok over unfolding run AddFile_store_cases [OF lo hi] by (simp split: if_splits)
  have res: "AddFile join conv env header [] (fs, dsk)
      = (Inr ?m, fs\<lparr>files := (files fs)(fileID \<mapsto> ?m)\<rparr>, dsk(?p \<mapsto> x))"
    unfolding run AddFile_store_cases [OF lo hi] using over wr bytes by simp
  have m: "meta = ?m"
    using ok res by simp
  show ?thesis
    using live idm unfolding res m by (simp add: GetFile_def)
qed

theorem disk_round_trip_witness:
  "ReadAll_result env_big = Some big
   \<and> ramLimitBytes < int (length big)
   \<and> 0 \<le> currentRAMUsage store0
   \<and> currentRAMUsage store0 + int (length big) < 2 ^ 63
   \<and> fst (AddFile filepath_Join (performConversion ext_text) env_big header_a [] (store0, Map.empty)) = Inr meta_big
   \<and> \<not> ExpiryTime meta_big < 2000
   \<and> \<not> IsInMemory meta_big
   \<and> fst (GetFile (\<lambda>p. True) 2000 (ID meta_big)
            (snd (AddFile filepath_Join (performConversion ext_text) env_big header_a [] (store0, Map.empty))))
        = Inr (meta_big, big)"
proof -
  have h1: "ReadAll_result env_big = Some big"
    by (simp add: sample_defs)
  have h2: "ramLimitBytes < int (length big)"
    by (simp add: length_big ramLimitBytes_def)
  have h3: "0 \<le> currentRAMUsage store0"
    by (simp add: store0_def)
  have h4: "currentRAMUsage store0 + int (length big) < 2 ^ 63"
    by (simp add: store0_def length_big)
  have h5: "fst (AddFile filepath_Join (performConversion ext_text) env_big header_a [] (store0, Map.empty)) = Inr meta_big"
    by (simp add: put_big)
  have h6: "\<not> ExpiryTime meta_big < 2000"
    by (simp add: sample_defs fileExpiryDuration_def Minute_def)
  show ?thesis
    using disk_round_trip [OF h1 h2 h3 h4 h5 h6, of "\<lambda>p. True"] h1 h2 h3 h4 h5 h6 by simp
qed

text \<open>
  Claim C5: \<^verbatim>\<open>GetFile\<close> fails with the not-found error exactly when the identifier
  is not in \<^verbatim>\<open>files\<close> or the record's \<^verbatim>\<open>ExpiryTime\<close> has passed; the expired record
  is removed by \<^verbatim>\<open>deleteFileInternal\<close>, and the error is the same in both cases.
\<close>

theorem GetFile_NotFound:
  "(fst (GetFile rm now fileID (fs, dsk)) = Inl NotFoundOrExpired
      \<longleftrightarrow> (files fs fileID = None \<or> (\<exists>meta. files fs fileID = Some meta \<and> ExpiryTime meta < now)))
   \<and> (files fs fileID = None \<longrightarrow> snd (GetFile rm now fileID (fs, dsk)) = (fs, dsk))
   \<and> (\<forall>meta. files fs fileID = Some meta \<and> ExpiryTime meta < now \<longrightarrow>
         snd (GetFile rm now fileID (fs, dsk)) = deleteFileInternal rm fileID (fs, dsk)
         \<and> files (fst (snd (GetFile rm now fileID (fs, dsk)))) fileID = None)"
  by (auto simp: GetFile_def deleteFileInternal_files split: option.splits)

theorem GetFile_NotFound_witness:
  "files store0 id_a = None
   \<and> fst (GetFile (\<lambda>p. True) 2000 id_a (store0, Map.empty)) = Inl NotFoundOrExpired
   \<and> snd (GetFile (\<lambda>p. True) 2000 id_a (store0, Map.empty)) = (store0, Map.empty)
   \<and> files store_small id_a = Some meta_small
   \<and> ExpiryTime meta_small < 1002 + fileExpiryDuration
   \<and> fst (GetFile (\<lambda>p. True) (1002 + fileExpiryDuration) id_a (store_small, Map.empty))
        = Inl NotFoundOrExpired
   \<and> snd (GetFile (\<lambda>p. True) (1002 + fileExpiryDuration) id_a (store_small, Map.empty))
        = deleteFileInternal (\<lambda>p. True) id_a (store_small, Map.empty)
   \<and> files (fst (snd (GetFile (\<lambda>p. True) (1002 + fileExpiryDuration) id_a (store_small, Map.empty))))
        id_a = None"
proof -
  have a: "files store0 id_a = None"
    by (simp add: store0_def)
  have b: "files store_small id_a = Some meta_small \<and> ExpiryTime meta_small < 1002 + fileExpiryDuration"
    by (simp add: sample_defs)
  show ?thesis
    using GetFile_NotFound [of "\<lambda>p. True" 2000 id_a store0 Map.empty]
      GetFile_NotFound [of "\<lambda>p. True" "1002 + fileExpiryDuration" id_a store_small Map.empty]
      a b
    by (simp add: deleteFileInternal_files)
qed

text \<open>
  Claim C6: when \<^verbatim>\<open>AddFile\<close> returns an error, \<^verbatim>\<open>files\<close>, \<^verbatim>\<open>ramStore\<close> and
  \<^verbatim>\<open>currentRAMUsage\<close> are as they were before the call.
\<close>

theorem AddFile_error_leaves_store:
  assumes "fst (AddFile join conv env header targetFormat (fs, dsk)) = Inl e"
  shows "files (fst (snd (AddFile join conv env header targetFormat (fs, dsk)))) = files fs
       \<and> ramStore (fst (snd (AddFile join conv env header targetFormat (fs, dsk)))) = ramStore fs
       \<and> currentRAMUsage (fst (snd (AddFile join conv env header targetFormat (fs, dsk))))
           = currentRAMUsage fs"
  using assms
  by (auto simp: AddFile_def AddFile_store_def Let_def split: sum.splits prod.splits if_splits)

theorem AddFile_error_leaves_store_witness:
  "fst (AddFile filepath_Join (performConversion ext_text) (env_big\<lparr>WriteFile_ok := False\<rparr>)
          header_a [] (store0, Map.empty)) = Inl DiskWriteFailed
   \<and> files (fst (snd (AddFile filepath_Join (performConversion ext_text)
          (env_big\<lparr>WriteFile_ok := False\<rparr>) header_a [] (store0, Map.empty)))) = files store0
   \<and> ramStore (fst (snd (AddFile filepath_Join (performConversion ext_text)
          (env_big\<lparr>WriteFile_ok := False\<rparr>) header_a [] (store0, Map.empty)))) = ramStore store0
   \<and> currentRAMUsage (fst (snd (AddFile filepath_Join (performConversion ext_text)
          (env_big\<lparr>WriteFile_ok := False\<rparr>) header_a [] (store0, Map.empty))))
        = currentRAMUsage store0
   \<and> performConversion ext_text md_bytes ''a.md'' ''png'' = None
   \<and> fst (AddFile filepath_Join (performConversion ext_text) env_md header_md ''png''
          (store_small, Map.empty))
        = Inl ConversionFailed
   \<and> files (fst (snd (AddFile filepath_Join (performConversion ext_text) env_md header_md ''png''
          (store_small, Map.empty)))) = files store_small"
proof -
  have a: "fst (AddFile filepath_Join (performConversion ext_text) (env_big\<lparr>WriteFile_ok := False\<rparr>)
          header_a [] (store0, Map.empty)) = Inl DiskWriteFailed"
    by (simp add: put_big_write_fails)
  have b: "fst (AddFile filepath_Join (performConversion ext_text) env_md header_md ''png''
          (store_small, Map.empty))
        = Inl ConversionFailed"
    by (simp add: put_unsupported_conversion)
  show ?thesis
    using AddFile_error_leaves_store [OF a] AddFile_error_leaves_store [OF b] a b
    by (simp add: convert_md_png)
qed

text \<open>
  Claim C7: the \<^verbatim>\<open>ExpiryTime\<close> of a record created by \<^verbatim>\<open>AddFile\<close> is its
  \<^verbatim>\<open>UploadTime\<close> plus \<^verbatim>\<open>fileExpiryDuration\<close>, and no read changes it.

  \<^verbatim>\<open>AddFile\<close> reads the clock twice, once for each field. With the readings 1000 and
  1001 the two fields are not \<^verbatim>\<open>fileExpiryDuration\<close> apart.
\<close>

theorem ExpiryTime_not_UploadTime_plus_TTL:
  "fst (AddFile filepath_Join (performConversion ext_text) env_small header_a [] (store0, Map.empty)) = Inr meta_small
   \<and> UploadTime meta_small = 1000
   \<and> ExpiryTime meta_small = 1001 + fileExpiryDuration
   \<and> ExpiryTime meta_small \<noteq> UploadTime meta_small + fileExpiryDuration"
  by (simp add: put_small, simp add: sample_defs)

text \<open>
  Claim C7 as amended: \<^verbatim>\<open>ExpiryTime\<close> is the second clock reading of \<^verbatim>\<open>AddFile\<close>
  plus \<^verbatim>\<open>fileExpiryDuration\<close> and \<^verbatim>\<open>UploadTime\<close> is the first reading, so that
  \<^verbatim>\<open>ExpiryTime\<close> is at least \<^verbatim>\<open>UploadTime\<close> plus \<^verbatim>\<open>fileExpiryDuration\<close> when
  the clock does not run backwards; after \<^verbatim>\<open>GetFile\<close> every record that is still in
  \<^verbatim>\<open>files\<close> is the record that was there before, and the record returned is the one
  stored.
\<close>

theorem AddFile_ExpiryTime:
  "(fst (AddFile join conv env header targetFormat (fs, dsk)) = Inr meta \<longrightarrow>
      UploadTime meta = now_UploadTime env
      \<and> ExpiryTime meta = now_ExpiryTime env + fileExpiryDuration
      \<and> (now_UploadTime env \<le> now_ExpiryTime env \<longrightarrow>
           UploadTime meta + fileExpiryDuration \<le> ExpiryTime meta)
      \<and> files (fst (snd (AddFile join conv env header targetFormat (fs, dsk)))) (ID meta) = Some meta)
   \<and> (\<forall>i m. files (fst (snd (GetFile rm now fileID (fs, dsk)))) i = Some m \<longrightarrow> files fs i = Some m)
   \<and> (\<forall>m content. fst (GetFile rm now fileID (fs, dsk)) = Inr (m, content) \<longrightarrow>
         files fs fileID = Some m
         \<and> files (fst (snd (GetFile rm now fileID (fs, dsk)))) fileID = Some m)"
proof (intro conjI impI allI)
  assume ok: "fst (AddFile join conv env header targetFormat (fs, dsk)) = Inr meta"
  obtain i meta0 fileSize fileBytes where
    prep: "AddFile_prepare conv env header targetFormat = Inr (i, meta0, fileSize, fileBytes)"
    and run: "AddFile join conv env header targetFormat (fs, dsk)
       = AddFile_store join env (i, meta0, fileSize, fileBytes) (fs, dsk)"
    using AddFile_Inr_prepared [OF ok] by blast
  note p = AddFile_prepare_Inr [OF prep]
  note s = AddFile_store_Inr [OF ok [unfolded run]]
  show "UploadTime meta = now_UploadTime env" using p s by simp
  show e: "ExpiryTime meta = now_ExpiryTime env + fileExpiryDuration" using p s by simp
  show "files (fst (snd (AddFile join conv env header targetFormat (fs, dsk)))) (ID meta) = Some meta"
    unfolding run using p s by simp
  { assume "now_UploadTime env \<le> now_ExpiryTime env"
    then show "UploadTime meta + fileExpiryDuration \<le> ExpiryTime meta" using p s by simp }
next
  fix i m
  assume "files (fst (snd (GetFile rm now fileID (fs, dsk)))) i = Some m"
  then show "files fs i = Some m"
    by (auto simp: GetFile_def deleteFileInternal_files split: option.splits if_splits)
next
  fix m content
  assume r: "fst (GetFile rm now fileID (fs, dsk)) = Inr (m, content)"
  then show "files fs fileID = Some m"
    by (auto simp: GetFile_def split: option.splits if_splits)
  from r show "files (fst (snd (GetFile rm now fileID (fs, dsk)))) fileID = Some m"
    by (auto simp: GetFile_def split: option.splits if_splits)
qed

theorem AddFile_ExpiryTime_witness:
  "fst (AddFile filepath_Join (performConversion ext_text) env_small header_a [] (store0, Map.empty)) = Inr meta_small
   \<and> now_UploadTime env_small \<le> now_ExpiryTime env_small
   \<and> ExpiryTime meta_small = now_ExpiryTime env_small + fileExpiryDuration
   \<and> UploadTime meta_small + fileExpiryDuration \<le> ExpiryTime meta_small
   \<and> fst (GetFile (\<lambda>p. True) 2000 id_a (store_small, Map.empty)) = Inr (meta_small, [1, 2, 3])
   \<and> files (fst (snd (GetFile (\<lambda>p. True) 2000 id_a (store_small, Map.empty)))) id_a
        = Some meta_small
   \<and> files store_small id_a = Some meta_small"
proof -
  have a: "fst (AddFile filepath_Join (performConversion ext_text) env_small header_a [] (store0, Map.empty)) = Inr meta_small"
    by (simp add: put_small)
  have b: "now_UploadTime env_small \<le> now_ExpiryTime env_small"
    by (simp add: env_small_def)
  have c: "fst (GetFile (\<lambda>p. True) 2000 id_a (store_small, Map.empty)) = Inr (meta_small, [1, 2, 3])"
    by (simp add: GetFile_def sample_defs fileExpiryDuration_def Minute_def)
  show ?thesis
    using AddFile_ExpiryTime [of filepath_Join "performConversion ext_text" env_small header_a "[]" store0 Map.empty
        meta_small "\<lambda>p. True" 2000 id_a]
      AddFile_ExpiryTime [of filepath_Join "performConversion ext_text" env_small header_a "[]" store_small Map.empty
        meta_small "\<lambda>p. True" 2000 id_a]
      a b c
    by simp
qed

text \<open>
  Claim C8: \<^verbatim>\<open>deleteFileInternal\<close> is idempotent. On an identifier that is not in
  \<^verbatim>\<open>files\<close> it changes nothing, and a second call on the same identifier changes
  nothing after the first.
\<close>

theorem deleteFileInternal_idempotent:
  "(files fs fileID = None \<longrightarrow> deleteFileInternal rm fileID (fs, dsk) = (fs, dsk))
   \<and> deleteFileInternal rm' fileID (deleteFileInternal rm fileID (fs, dsk))
       = deleteFileInternal rm fileID (fs, dsk)"
proof
  show "files fs fileID = None \<longrightarrow> deleteFileInternal rm fileID (fs, dsk) = (fs, dsk)"
    by (simp add: deleteFileInternal_absent)
next
  obtain fs' dsk' where r: "deleteFileInternal rm fileID (fs, dsk) = (fs', dsk')"
    by (cases "deleteFileInternal rm fileID (fs, dsk)")
  have "files fs' fileID = None"
    using deleteFileInternal_files [of rm fileID fs dsk] r by simp
  then show "deleteFileInternal rm' fileID (deleteFileInternal rm fileID (fs, dsk))
       = deleteFileInternal rm fileID (fs, dsk)"
    by (simp add: r deleteFileInternal_absent)
qed

theorem deleteFileInternal_idempotent_witness:
  "files store0 id_a = None
   \<and> deleteFileInternal (\<lambda>p. True) id_a (store0, Map.empty) = (store0, Map.empty)
   \<and> deleteFileInternal (\<lambda>p. True) id_a (deleteFileInternal (\<lambda>p. True) id_a (store_small, Map.empty))
       = deleteFileInternal (\<lambda>p. True) id_a (store_small, Map.empty)
   \<and> deleteFileInternal (\<lambda>p. True) id_a (store_small, Map.empty) = (store0, Map.empty)"
proof -
  have a: "files store0 id_a = None"
    by (simp add: store0_def)
  have b: "deleteFileInternal (\<lambda>p. True) id_a (store_small, Map.empty) = (store0, Map.empty)"
    by (simp add: deleteFileInternal_def sample_defs int64_def)
  show ?thesis
    using deleteFileInternal_idempotent [of store0 id_a "\<lambda>p. True" Map.empty "\<lambda>p. True"]
      deleteFileInternal_idempotent [of store_small id_a "\<lambda>p. True" Map.empty "\<lambda>p. True"] a b
    by simp
qed




text \<open>
  Claim C10: expiry is strict. At a time equal to \<^verbatim>\<open>ExpiryTime\<close>, \<^verbatim>\<open>GetFile\<close>
  returns the record and its bytes and the sweep keeps the record; a record is treated
  as expired, by \<^verbatim>\<open>GetFile\<close> and by the sweep, only at times after \<^verbatim>\<open>ExpiryTime\<close>.
\<close>

theorem expiry_is_strict:
  assumes rec: "files fs fileID = Some meta"
  shows "(fst (GetFile rm now fileID (fs, dsk)) = Inl NotFoundOrExpired \<longleftrightarrow> ExpiryTime meta < now)
       \<and> (fileID \<in> set ids \<longrightarrow>
            (files (fst (cleanupTick rm now ids (fs, dsk))) fileID = None \<longleftrightarrow> ExpiryTime meta < now))
       \<and> (now = ExpiryTime meta \<longrightarrow>
            snd (GetFile rm now fileID (fs, dsk)) = (fs, dsk)
            \<and> (\<forall>content. (if IsInMemory meta then ramStore fs fileID else dsk (Path meta)) = Some content
                  \<longrightarrow> fst (GetFile rm now fileID (fs, dsk)) = Inr (meta, content))
            \<and> files (fst (cleanupTick rm now ids (fs, dsk))) fileID = Some meta
            \<and> ramStore (fst (cleanupTick rm now ids (fs, dsk))) fileID = ramStore fs fileID)"
proof (intro conjI impI)
  show "fst (GetFile rm now fileID (fs, dsk)) = Inl NotFoundOrExpired \<longleftrightarrow> ExpiryTime meta < now"
    using rec by (auto simp: GetFile_def split: option.splits)
next
  assume "fileID \<in> set ids"
  then show "files (fst (cleanupTick rm now ids (fs, dsk))) fileID = None \<longleftrightarrow> ExpiryTime meta < now"
    using rec by (simp add: cleanupTick_files)
next
  assume "now = ExpiryTime meta"
  then show "snd (GetFile rm now fileID (fs, dsk)) = (fs, dsk)"
    using rec by (auto simp: GetFile_def split: option.splits)
next
  assume "now = ExpiryTime meta"
  then show "\<forall>content. (if IsInMemory meta then ramStore fs fileID else dsk (Path meta)) = Some content
                  \<longrightarrow> fst (GetFile rm now fileID (fs, dsk)) = Inr (meta, content)"
    using rec by (auto simp: GetFile_def split: option.splits)
next
  assume "now = ExpiryTime meta"
  then show "files (fst (cleanupTick rm now ids (fs, dsk))) fileID = Some meta"
    using rec by (simp add: cleanupTick_files)
next
  assume "now = ExpiryTime meta"
  then have "\<not> ExpiryTime meta < now" by simp
  with rec show "ramStore (fst (cleanupTick rm now ids (fs, dsk))) fileID = ramStore fs fileID"
    using cleanupTick_ramStore_kept [of "(fs, dsk)" fileID meta now rm ids] by simp
qed

theorem expiry_is_strict_witness:
  "files store_small id_a = Some meta_small
   \<and> id_a \<in> set [id_a]
   \<and> fst (GetFile (\<lambda>p. True) (ExpiryTime meta_small) id_a (store_small, Map.empty))
        = Inr (meta_small, [1, 2, 3])
   \<and> snd (GetFile (\<lambda>p. True) (ExpiryTime meta_small) id_a (store_small, Map.empty))
        = (store_small, Map.empty)
   \<and> files (fst (cleanupTick (\<lambda>p. True) (ExpiryTime meta_small) [id_a] (store_small, Map.empty))) id_a
        = Some meta_small
   \<and> ramStore (fst (cleanupTick (\<lambda>p. True) (ExpiryTime meta_small) [id_a] (store_small, Map.empty))) id_a
        = Some [1, 2, 3]
   \<and> ExpiryTime meta_small < ExpiryTime meta_small + 1
   \<and> fst (GetFile (\<lambda>p. True) (ExpiryTime meta_small + 1) id_a (store_small, Map.empty))
        = Inl NotFoundOrExpired
   \<and> files (fst (cleanupTick (\<lambda>p. True) (ExpiryTime meta_small + 1) [id_a] (store_small, Map.empty)))
        id_a = None"
proof -
  have a: "files store_small id_a = Some meta_small"
    by (simp add: sample_defs)
  have b: "(if IsInMemory meta_small then ramStore store_small id_a else Map.empty (Path meta_small))
       = Some [1, 2, 3]"
    by (simp add: sample_defs)
  have c: "ramStore store_small id_a = Some [1, 2, 3]"
    by (simp add: sample_defs)
  show ?thesis
    using expiry_is_strict [OF a, of "\<lambda>p. True" "ExpiryTime meta_small" Map.empty "[id_a]"]
      expiry_is_strict [OF a, of "\<lambda>p. True" "ExpiryTime meta_small + 1" Map.empty "[id_a]"]
      a b c
    by simp
qed

end
